theory Spec2Isabelle
  imports Main
begin

section \<open>The table facade initializer of sdk-ui-pivot\<close>

text \<open>
  This theory embeds \<^verbatim>\<open>libs/sdk-ui-pivot/src/impl/tableFacadeInitializer.ts\<close>: the class
  \<^verbatim>\<open>TableFacadeInitializer\<close> with its flag \<^verbatim>\<open>abandoned\<close>, its method \<^verbatim>\<open>abandon\<close> and its
  method \<^verbatim>\<open>initialize\<close>, a chain of two promises (\<^verbatim>\<open>execute\<close>, then \<^verbatim>\<open>readWindow\<close>) with one
  inner and one outer \<^verbatim>\<open>catch\<close>.

  The class talks to three collaborators: the backend (\<^verbatim>\<open>execution.execute()\<close> and
  \<^verbatim>\<open>result.readWindow(...)\<close>), the callbacks of \<^verbatim>\<open>config\<close>, and the optional callback
  \<^verbatim>\<open>props.pushData\<close>. Every call that leaves the class is appended to a history, so that
  which calls happen, how often, in which order and with which arguments are properties
  of a list.
\<close>

subsection \<open>Values that cross the boundary\<close>

text \<open>
  Execution handles, execution results and data views are opaque to the class: it only
  passes them on. They are identified by a number.
\<close>

type_synonym IPreparedExecution = nat
type_synonym IExecutionResult = nat
type_synonym IDataView = nat

text \<open>
  Modelled from the spec: the error classes of \<^verbatim>\<open>@gooddata/sdk-backend-spi\<close> are not part
  of the sources at hand. The spec gives the taxonomy "no data" (which may carry a data
  view), "unexpected response" and "any other error". \<open>TypeError\<close> is what JavaScript
  raises when a value that is not a function is called, \<open>InvariantError\<close> what
  \<^verbatim>\<open>invariant\<close> of ts-invariant raises on a false condition.
\<close>

datatype error =
    NoDataError "IDataView option"
  | UnexpectedResponseError
  | OtherError string
  | TypeError string
  | InvariantError

fun isNoDataError :: "error \<Rightarrow> bool" where
  "isNoDataError (NoDataError _) = True"
| "isNoDataError _ = False"

fun isUnexpectedResponseError :: "error \<Rightarrow> bool" where
  "isUnexpectedResponseError UnexpectedResponseError = True"
| "isUnexpectedResponseError _ = False"

text \<open>The field \<^verbatim>\<open>error.dataView\<close>; an error of another class has no such field.\<close>

fun dataViewOf :: "error \<Rightarrow> IDataView option" where
  "dataViewOf (NoDataError dv) = dv"
| "dataViewOf _ = None"

text \<open>
  The properties the class reads from \<^verbatim>\<open>props\<close>. All three are optional in
  \<^verbatim>\<open>ICorePivotTableProps\<close> (the source reads two of them with a non-null assertion).
  \<open>pushDataGiven\<close> says whether \<^verbatim>\<open>props.pushData\<close> is a function or \<^verbatim>\<open>undefined\<close>.
\<close>

record ICorePivotTableProps =
  pageSize :: "nat option"
  exportTitle :: "string option"
  pushDataGiven :: bool

text \<open>
  The helpers \<^verbatim>\<open>TableFacade\<close>, \<^verbatim>\<open>createExportFunction\<close>, \<^verbatim>\<open>getAvailableDrillTargets\<close>,
  \<^verbatim>\<open>getAvailableDrillTargetsFromExecutionResult\<close>, \<^verbatim>\<open>DataViewFacade.for\<close> and \<^verbatim>\<open>convertError\<close>
  are imported from other modules. Their results stay symbolic: a constructor records
  which helper was applied to which arguments, which is all the class determines.
  The facade also receives \<^verbatim>\<open>this.config\<close>, the same object in every call, which the
  constructor of the symbolic facade leaves out.
\<close>

datatype TableFacade = TableFacade IExecutionResult IDataView ICorePivotTableProps

datatype ExportFunction = ExportFunction TableFacade "string option"

datatype DrillTargets =
    TableDrillTargets TableFacade
  | DataViewDrillTargets IDataView
  | ExecutionResultDrillTargets IExecutionResult

datatype GoodDataSdkError = ConvertedError error

definition createTableFacade ::
  "ICorePivotTableProps \<Rightarrow> IExecutionResult \<Rightarrow> IDataView \<Rightarrow> TableFacade" where
  "createTableFacade p result dataView = TableFacade result dataView p"

definition createExportFunction :: "TableFacade \<Rightarrow> string option \<Rightarrow> ExportFunction" where
  "createExportFunction table title = ExportFunction table title"

definition tableGetAvailableDrillTargets :: "TableFacade \<Rightarrow> DrillTargets" where
  "tableGetAvailableDrillTargets table = TableDrillTargets table"

text \<open>\<^verbatim>\<open>getAvailableDrillTargets(DataViewFacade.for(dataView))\<close>\<close>

definition getAvailableDrillTargets :: "IDataView \<Rightarrow> DrillTargets" where
  "getAvailableDrillTargets dataView = DataViewDrillTargets dataView"

definition getAvailableDrillTargetsFromExecutionResult :: "IExecutionResult \<Rightarrow> DrillTargets" where
  "getAvailableDrillTargetsFromExecutionResult result = ExecutionResultDrillTargets result"

definition convertError :: "error \<Rightarrow> GoodDataSdkError" where
  "convertError e = ConvertedError e"

subsection \<open>The history of calls\<close>

text \<open>
  \<open>Execute\<close> and \<open>ReadWindow\<close> are the calls to the backend; \<open>OnLoadingChanged\<close>,
  \<open>OnExportReady\<close>, \<open>PushData\<close> and \<open>OnError\<close> are the callbacks of \<^verbatim>\<open>config\<close>;
  \<open>PropsPushData\<close> is a call of \<^verbatim>\<open>this.props.pushData\<close>. The first argument of the two
  push events is the \<^verbatim>\<open>dataView\<close> key of the pushed object, absent or present.
  \<open>Abandoned\<close> marks the moment a call of \<^verbatim>\<open>abandon\<close> sets the flag.
  The callbacks have result type \<^verbatim>\<open>void\<close> and are taken to return normally. Whether a
  callback calls back into the instance is part of the model: not in the first set of
  definitions, which has the owner call \<^verbatim>\<open>abandon\<close> between handlers, and so in the second,
  which has the owner call it from inside a callback as well. Likewise \<^verbatim>\<open>execute\<close> and \<^verbatim>\<open>readWindow\<close> are taken to return
  a promise that settles, as their interface says, rather than to throw synchronously.
\<close>

datatype event =
    Execute IPreparedExecution
  | ReadWindow IExecutionResult "nat \<times> nat" "nat option \<times> nat"
  | OnLoadingChanged bool
  | OnExportReady ExportFunction
  | PushData "IDataView option" DrillTargets
  | OnError GoodDataSdkError IPreparedExecution
  | PropsPushData "IDataView option" DrillTargets
  | Abandoned

fun isBackendCall :: "event \<Rightarrow> bool" where
  "isBackendCall (Execute _) = True"
| "isBackendCall (ReadWindow _ _ _) = True"
| "isBackendCall _ = False"

fun isConfigCallback :: "event \<Rightarrow> bool" where
  "isConfigCallback (OnLoadingChanged _) = True"
| "isConfigCallback (OnExportReady _) = True"
| "isConfigCallback (PushData _ _) = True"
| "isConfigCallback (OnError _ _) = True"
| "isConfigCallback _ = False"

fun isOnError :: "event \<Rightarrow> bool" where
  "isOnError (OnError _ _) = True"
| "isOnError _ = False"

fun isReadWindow :: "event \<Rightarrow> bool" where
  "isReadWindow (ReadWindow _ _ _) = True"
| "isReadWindow _ = False"

definition backendCalls :: "event list \<Rightarrow> event list" where
  "backendCalls h = filter isBackendCall h"

definition configCalls :: "event list \<Rightarrow> event list" where
  "configCalls h = filter isConfigCallback h"

definition propsCalls :: "event list \<Rightarrow> event list" where
  "propsCalls h = filter (\<lambda>e. case e of PropsPushData _ _ \<Rightarrow> True | _ \<Rightarrow> False) h"

text \<open>What was called after the flag had been set: the history behind the first mark.\<close>

fun afterAbandon :: "event list \<Rightarrow> event list" where
  "afterAbandon [] = []"
| "afterAbandon (e # es) = (if e = Abandoned then es else afterAbandon es)"

definition firedWhileAbandoned :: "event list \<Rightarrow> event list" where
  "firedWhileAbandoned h = configCalls (afterAbandon h) @ propsCalls (afterAbandon h)"

subsection \<open>The class\<close>

record TableFacadeInitializer =
  execution :: IPreparedExecution
  props :: ICorePivotTableProps
  abandoned :: bool

definition newTableFacadeInitializer ::
  "IPreparedExecution \<Rightarrow> ICorePivotTableProps \<Rightarrow> TableFacadeInitializer" where
  "newTableFacadeInitializer e p = \<lparr>execution = e, props = p, abandoned = False\<rparr>"

text \<open>
  \<^verbatim>\<open>abandon\<close>: the invariant is checked before the assignment, so a call on an abandoned
  instance raises and changes nothing.
\<close>

definition abandon :: "TableFacadeInitializer \<Rightarrow> error + TableFacadeInitializer" where
  "abandon ini = (if abandoned ini then Inl InvariantError else Inr (ini\<lparr>abandoned := True\<rparr>))"

text \<open>The instance together with the history of the calls made so far.\<close>

record world =
  self :: TableFacadeInitializer
  history :: "event list"

definition emit :: "event \<Rightarrow> world \<Rightarrow> world" where
  "emit e w = w\<lparr>history := history w @ [e]\<rparr>"

subsection \<open>Promises and the caller\<close>

text \<open>
  A settled promise is fulfilled with a value or rejected with an error. A handler is a
  function of the world that returns normally (\<open>Resolved\<close>) or throws (\<open>Rejected\<close>);
  \<open>thenP\<close> and \<open>catchP\<close> are \<^verbatim>\<open>.then(f)\<close> and \<^verbatim>\<open>.catch(g)\<close>: the handler runs on its own
  kind of settlement, the other kind passes through.
\<close>

datatype 'a settled = Resolved 'a | Rejected error

definition thenP ::
  "('a \<Rightarrow> world \<Rightarrow> 'b settled \<times> world) \<Rightarrow> 'a settled \<times> world \<Rightarrow> 'b settled \<times> world" where
  "thenP f p = (case fst p of Resolved v \<Rightarrow> f v (snd p) | Rejected e \<Rightarrow> (Rejected e, snd p))"

definition catchP ::
  "(error \<Rightarrow> world \<Rightarrow> 'a settled \<times> world) \<Rightarrow> 'a settled \<times> world \<Rightarrow> 'a settled \<times> world" where
  "catchP g p = (case fst p of Resolved v \<Rightarrow> (Resolved v, snd p) | Rejected e \<Rightarrow> g e (snd p))"

text \<open>
  JavaScript runs one handler at a time, so code of the owner that is not a callback of
  the instance can call \<^verbatim>\<open>abandon\<close> only between two handlers. These are the five gaps of
  one initialization:
  before \<^verbatim>\<open>initialize\<close> is called; while \<^verbatim>\<open>execute\<close> is pending; while \<^verbatim>\<open>readWindow\<close> is
  pending; after the inner handlers (or the rejection of \<^verbatim>\<open>execute\<close>) and before the outer
  \<^verbatim>\<open>catch\<close> reacts; after the returned promise has settled.
\<close>

datatype point = BeforeInitialize | ExecutePending | ReadWindowPending | OuterCatchPending | AfterSettled

text \<open>
  A scenario fixes everything the class does not decide: how the two backend calls
  settle and in which gaps the owner calls \<^verbatim>\<open>abandon\<close>.
\<close>

record scenario =
  executeOutcome :: "IExecutionResult settled"
  readWindowOutcome :: "IDataView settled"
  abandonAt :: "point \<Rightarrow> bool"

text \<open>
  The owner's call of \<^verbatim>\<open>abandon\<close> in a gap. When the call raises, the error goes to the
  owner and the instance is as before.
\<close>

definition ownerAt :: "point \<Rightarrow> scenario \<Rightarrow> world \<Rightarrow> world" where
  "ownerAt p sc w =
     (if abandonAt sc p then
        (case abandon (self w) of
           Inr ini \<Rightarrow> w\<lparr>self := ini, history := history w @ [Abandoned]\<rparr>
         | Inl _ \<Rightarrow> w)
      else w)"

subsection \<open>\<^verbatim>\<open>initialize\<close>\<close>

text \<open>\<^verbatim>\<open>this.props.pushData!(data)\<close>: calling \<^verbatim>\<open>undefined\<close> raises a TypeError.\<close>

definition callPropsPushData ::
  "IDataView option \<Rightarrow> DrillTargets \<Rightarrow> world \<Rightarrow> error + world" where
  "callPropsPushData dv targets w =
     (if pushDataGiven (props (self w)) then Inr (emit (PropsPushData dv targets) w)
      else Inl (TypeError ''this.props.pushData is not a function''))"

text \<open>Lines 53 to 71: the handler of a fulfilled \<^verbatim>\<open>readWindow\<close>.\<close>

definition onReadWindowFulfilled ::
  "IExecutionResult \<Rightarrow> IDataView \<Rightarrow> world \<Rightarrow> TableFacade option settled \<times> world" where
  "onReadWindowFulfilled result dataView w =
     (if abandoned (self w) then (Resolved None, w)
      else
        (let table = createTableFacade (props (self w)) result dataView;
             w1 = emit (OnLoadingChanged False) w;
             w2 = emit (OnExportReady (createExportFunction table (exportTitle (props (self w))))) w1;
             availableDrillTargets = tableGetAvailableDrillTargets table;
             w3 = emit (PushData (Some dataView) availableDrillTargets) w2
         in (Resolved (Some table), w3)))"

text \<open>Lines 72 to 102: the inner \<^verbatim>\<open>catch\<close>.\<close>

definition onReadWindowRejected ::
  "IExecutionResult \<Rightarrow> error \<Rightarrow> world \<Rightarrow> TableFacade option settled \<times> world" where
  "onReadWindowRejected result err w =
     (if abandoned (self w) then (Resolved None, w)
      else
        (case (if isUnexpectedResponseError err
               then callPropsPushData None (getAvailableDrillTargetsFromExecutionResult result) w
               else Inr w) of
           Inl thrown \<Rightarrow> (Rejected thrown, w)
         | Inr w1 \<Rightarrow>
             (let w2 = (case (if isNoDataError err then dataViewOf err else None) of
                          Some dv \<Rightarrow>
                            emit (OnLoadingChanged False)
                              (emit (PushData None (getAvailableDrillTargets dv)) w1)
                        | None \<Rightarrow> w1)
              in (Resolved None, emit (OnError (convertError err) (execution (self w2))) w2))))"

text \<open>
  Lines 50 to 103: the handler of a fulfilled \<^verbatim>\<open>execute\<close>. It calls \<^verbatim>\<open>readWindow\<close> and
  returns the promise of the inner chain, whose settlement the outer chain adopts.
  \<open>cpp\<close> is the constant \<^verbatim>\<open>COLS_PER_PAGE\<close> of \<^verbatim>\<open>./base/constants\<close>.
\<close>

definition onExecuteFulfilled ::
  "nat \<Rightarrow> scenario \<Rightarrow> IExecutionResult \<Rightarrow> world \<Rightarrow> TableFacade option settled \<times> world" where
  "onExecuteFulfilled cpp sc result w =
     (let w1 = emit (ReadWindow result (0, 0) (pageSize (props (self w)), cpp)) w;
          w2 = ownerAt ReadWindowPending sc w1
      in catchP (onReadWindowRejected result)
           (thenP (onReadWindowFulfilled result) (readWindowOutcome sc, w2)))"

text \<open>Lines 104 to 110: the outer \<^verbatim>\<open>catch\<close>.\<close>

definition onChainRejected :: "error \<Rightarrow> world \<Rightarrow> TableFacade option settled \<times> world" where
  "onChainRejected err w =
     (if abandoned (self w) then (Resolved None, w)
      else (Resolved None, emit (OnError (convertError err) (execution (self w))) w))"

text \<open>
  Lines 43 to 111. The first two calls are synchronous; the rest runs when the promises
  settle, with the owner's gaps in between.
\<close>

definition initialize ::
  "nat \<Rightarrow> scenario \<Rightarrow> world \<Rightarrow> TableFacade option settled \<times> world" where
  "initialize cpp sc w =
     (let w1 = emit (OnLoadingChanged True) w;
          w2 = emit (Execute (execution (self w1))) w1;
          w3 = ownerAt ExecutePending sc w2;
          p = thenP (onExecuteFulfilled cpp sc) (executeOutcome sc, w3);
          w4 = ownerAt OuterCatchPending sc (snd p)
      in catchP onChainRejected (fst p, w4))"

text \<open>
  One life of an instance: the constructor, the owner's gap before \<^verbatim>\<open>initialize\<close>, and
  \<^verbatim>\<open>initialize\<close> itself. The result is the settlement of the promise that \<^verbatim>\<open>initialize\<close>
  returned and the world at that moment.
\<close>

definition settlement ::
  "nat \<Rightarrow> IPreparedExecution \<Rightarrow> ICorePivotTableProps \<Rightarrow> scenario
     \<Rightarrow> TableFacade option settled \<times> world" where
  "settlement cpp e p sc =
     initialize cpp sc
       (ownerAt BeforeInitialize sc \<lparr>self = newTableFacadeInitializer e p, history = []\<rparr>)"

text \<open>The same, followed by the owner's gap after the promise has settled.\<close>

definition run ::
  "nat \<Rightarrow> IPreparedExecution \<Rightarrow> ICorePivotTableProps \<Rightarrow> scenario
     \<Rightarrow> TableFacade option settled \<times> world" where
  "run cpp e p sc =
     (let r = settlement cpp e p sc in (fst r, ownerAt AfterSettled sc (snd r)))"

subsection \<open>Reading a history\<close>

text \<open>The calls that left the class, in order: the history without the marks.\<close>

definition calls :: "event list \<Rightarrow> event list" where
  "calls h = filter (\<lambda>e. e \<noteq> Abandoned) h"

text \<open>Two schedules of the owner: never abandoning, and abandoning in one gap only.\<close>

definition never :: "point \<Rightarrow> bool" where
  "never q = False"

definition onlyAt :: "point \<Rightarrow> point \<Rightarrow> bool" where
  "onlyAt p q = (q = p)"

text \<open>How often the flag went from false to true.\<close>

definition flagTransitions :: "event list \<Rightarrow> nat" where
  "flagTransitions h = length (filter (\<lambda>ev. ev = Abandoned) h)"

text \<open>
  The world when \<^verbatim>\<open>initialize\<close> has returned its promise and the gap in which \<^verbatim>\<open>execute\<close>
  is pending has passed.
\<close>

definition started :: "IPreparedExecution \<Rightarrow> ICorePivotTableProps \<Rightarrow> scenario \<Rightarrow> world" where
  "started e p sc =
     ownerAt ExecutePending sc
       (emit (Execute e)
          (emit (OnLoadingChanged True)
             (ownerAt BeforeInitialize sc
                \<lparr>self = newTableFacadeInitializer e p, history = []\<rparr>)))"

text \<open>
  The three terminal outcomes, read off a settlement: a facade and no error report; no
  facade and one error report; no facade, no error report and the flag set.
\<close>

definition resolvedWithFacade :: "TableFacade option settled \<times> world \<Rightarrow> bool" where
  "resolvedWithFacade r =
     (case fst r of
        Resolved (Some table) \<Rightarrow> filter isOnError (history (snd r)) = []
      | _ \<Rightarrow> False)"

definition resolvedAfterError :: "TableFacade option settled \<times> world \<Rightarrow> bool" where
  "resolvedAfterError r =
     (fst r = Resolved None \<and> length (filter isOnError (history (snd r))) = 1)"

definition resolvedAfterAbandon :: "TableFacade option settled \<times> world \<Rightarrow> bool" where
  "resolvedAfterAbandon r =
     (fst r = Resolved None \<and> filter isOnError (history (snd r)) = [] \<and> abandoned (self (snd r)))"

subsection \<open>Callbacks that call \<^verbatim>\<open>abandon\<close>\<close>

text \<open>
  A callback is code of the owner, and the instance is in the owner's hands, so the owner
  can call \<^verbatim>\<open>abandon\<close> from inside a callback too, before the callback returns. The
  definitions above leave that out; the ones below add it, statement by statement the
  same handlers. \<open>inside ev\<close> says that the callback, on the call \<open>ev\<close>, calls
  \<^verbatim>\<open>abandon\<close>. A callback that finds the flag already set catches the invariant's error
  itself, so that the callback still returns normally.
\<close>

definition callback :: "(event \<Rightarrow> bool) \<Rightarrow> event \<Rightarrow> world \<Rightarrow> world" where
  "callback inside ev w =
     (let w1 = emit ev w
      in if inside ev then
           (case abandon (self w1) of
              Inr ini \<Rightarrow> w1\<lparr>self := ini, history := history w1 @ [Abandoned]\<rparr>
            | Inl _ \<Rightarrow> w1)
         else w1)"

definition callPropsPushDataR ::
  "(event \<Rightarrow> bool) \<Rightarrow> IDataView option \<Rightarrow> DrillTargets \<Rightarrow> world \<Rightarrow> error + world" where
  "callPropsPushDataR inside dv targets w =
     (if pushDataGiven (props (self w)) then Inr (callback inside (PropsPushData dv targets) w)
      else Inl (TypeError ''this.props.pushData is not a function''))"

text \<open>Lines 53 to 71. The flag is read once, at line 54, before the three callbacks.\<close>

definition onReadWindowFulfilledR ::
  "(event \<Rightarrow> bool) \<Rightarrow> IExecutionResult \<Rightarrow> IDataView \<Rightarrow> world
     \<Rightarrow> TableFacade option settled \<times> world" where
  "onReadWindowFulfilledR inside result dataView w =
     (if abandoned (self w) then (Resolved None, w)
      else
        (let table = createTableFacade (props (self w)) result dataView;
             w1 = callback inside (OnLoadingChanged False) w;
             w2 = callback inside
                    (OnExportReady (createExportFunction table (exportTitle (props (self w1))))) w1;
             availableDrillTargets = tableGetAvailableDrillTargets table;
             w3 = callback inside (PushData (Some dataView) availableDrillTargets) w2
         in (Resolved (Some table), w3)))"

text \<open>Lines 72 to 102. The flag is read once, at line 73.\<close>

definition onReadWindowRejectedR ::
  "(event \<Rightarrow> bool) \<Rightarrow> IExecutionResult \<Rightarrow> error \<Rightarrow> world
     \<Rightarrow> TableFacade option settled \<times> world" where
  "onReadWindowRejectedR inside result err w =
     (if abandoned (self w) then (Resolved None, w)
      else
        (case (if isUnexpectedResponseError err
               then callPropsPushDataR inside None
                      (getAvailableDrillTargetsFromExecutionResult result) w
               else Inr w) of
           Inl thrown \<Rightarrow> (Rejected thrown, w)
         | Inr w1 \<Rightarrow>
             (let w2 = (case (if isNoDataError err then dataViewOf err else None) of
                          Some dv \<Rightarrow>
                            callback inside (OnLoadingChanged False)
                              (callback inside (PushData None (getAvailableDrillTargets dv)) w1)
                        | None \<Rightarrow> w1)
              in (Resolved None,
                  callback inside (OnError (convertError err) (execution (self w2))) w2))))"

text \<open>Lines 50 to 103.\<close>

definition onExecuteFulfilledR ::
  "(event \<Rightarrow> bool) \<Rightarrow> nat \<Rightarrow> scenario \<Rightarrow> IExecutionResult \<Rightarrow> world
     \<Rightarrow> TableFacade option settled \<times> world" where
  "onExecuteFulfilledR inside cpp sc result w =
     (let w1 = emit (ReadWindow result (0, 0) (pageSize (props (self w)), cpp)) w;
          w2 = ownerAt ReadWindowPending sc w1
      in catchP (onReadWindowRejectedR inside result)
           (thenP (onReadWindowFulfilledR inside result) (readWindowOutcome sc, w2)))"

text \<open>Lines 104 to 110.\<close>

definition onChainRejectedR ::
  "(event \<Rightarrow> bool) \<Rightarrow> error \<Rightarrow> world \<Rightarrow> TableFacade option settled \<times> world" where
  "onChainRejectedR inside err w =
     (if abandoned (self w) then (Resolved None, w)
      else (Resolved None,
            callback inside (OnError (convertError err) (execution (self w))) w))"

text \<open>Lines 43 to 111.\<close>

definition initializeR ::
  "(event \<Rightarrow> bool) \<Rightarrow> nat \<Rightarrow> scenario \<Rightarrow> world \<Rightarrow> TableFacade option settled \<times> world" where
  "initializeR inside cpp sc w =
     (let w1 = callback inside (OnLoadingChanged True) w;
          w2 = emit (Execute (execution (self w1))) w1;
          w3 = ownerAt ExecutePending sc w2;
          p = thenP (onExecuteFulfilledR inside cpp sc) (executeOutcome sc, w3);
          w4 = ownerAt OuterCatchPending sc (snd p)
      in catchP (onChainRejectedR inside) (fst p, w4))"

definition runR ::
  "(event \<Rightarrow> bool) \<Rightarrow> nat \<Rightarrow> IPreparedExecution \<Rightarrow> ICorePivotTableProps \<Rightarrow> scenario
     \<Rightarrow> TableFacade option settled \<times> world" where
  "runR inside cpp e p sc =
     (let r = initializeR inside cpp sc
                (ownerAt BeforeInitialize sc
                   \<lparr>self = newTableFacadeInitializer e p, history = []\<rparr>)
      in (fst r, ownerAt AfterSettled sc (snd r)))"

text \<open>Two owners: one whose callbacks never abandon, one who abandons inside one call.\<close>

definition noReentry :: "event \<Rightarrow> bool" where
  "noReentry ev = False"

definition onlyInside :: "event \<Rightarrow> event \<Rightarrow> bool" where
  "onlyInside ev ev' = (ev' = ev)"

section \<open>Basic facts\<close>

subsection \<open>The world through its projections\<close>

lemma emit_self [simp]: "self (emit ev w) = self w"
  by (simp add: emit_def)

lemma emit_history [simp]: "history (emit ev w) = history w @ [ev]"
  by (simp add: emit_def)

lemma ownerAt_execution [simp]: "execution (self (ownerAt pt sc w)) = execution (self w)"
  by (simp add: ownerAt_def abandon_def)

lemma ownerAt_props [simp]: "props (self (ownerAt pt sc w)) = props (self w)"
  by (simp add: ownerAt_def abandon_def)

lemma ownerAt_abandoned [simp]:
  "abandoned (self (ownerAt pt sc w)) = (abandoned (self w) \<or> abandonAt sc pt)"
  by (simp add: ownerAt_def abandon_def)

lemma ownerAt_history [simp]:
  "history (ownerAt pt sc w) =
     history w @ (if abandonAt sc pt \<and> \<not> abandoned (self w) then [Abandoned] else [])"
  by (simp add: ownerAt_def abandon_def)

subsection \<open>The handlers\<close>

lemma onReadWindowFulfilled_self [simp]:
  "self (snd (onReadWindowFulfilled result dv w)) = self w"
  by (simp add: onReadWindowFulfilled_def Let_def)

lemma onReadWindowFulfilled_fst:
  "fst (onReadWindowFulfilled result dv w) =
     (if abandoned (self w) then Resolved None
      else Resolved (Some (createTableFacade (props (self w)) result dv)))"
  by (simp add: onReadWindowFulfilled_def Let_def)

lemma onReadWindowFulfilled_history:
  "history (snd (onReadWindowFulfilled result dv w)) =
     history w @
     (if abandoned (self w) then []
      else [OnLoadingChanged False,
            OnExportReady (createExportFunction (createTableFacade (props (self w)) result dv)
                             (exportTitle (props (self w)))),
            PushData (Some dv)
              (tableGetAvailableDrillTargets (createTableFacade (props (self w)) result dv))])"
  by (simp add: onReadWindowFulfilled_def Let_def)

lemma onReadWindowRejected_self [simp]:
  "self (snd (onReadWindowRejected result err w)) = self w"
  by (simp add: onReadWindowRejected_def callPropsPushData_def Let_def split: option.splits)

lemma onReadWindowRejected_fst:
  "fst (onReadWindowRejected result err w) =
     (if \<not> abandoned (self w) \<and> isUnexpectedResponseError err \<and> \<not> pushDataGiven (props (self w))
      then Rejected (TypeError ''this.props.pushData is not a function'')
      else Resolved None)"
  by (simp add: onReadWindowRejected_def callPropsPushData_def Let_def split: option.splits)

lemma onReadWindowRejected_history:
  "history (snd (onReadWindowRejected result err w)) =
     history w @
     (if abandoned (self w) then []
      else if isUnexpectedResponseError err \<and> \<not> pushDataGiven (props (self w)) then []
      else (if isUnexpectedResponseError err
            then [PropsPushData None (getAvailableDrillTargetsFromExecutionResult result)] else []) @
           (case (if isNoDataError err then dataViewOf err else None) of
              Some dv \<Rightarrow> [PushData None (getAvailableDrillTargets dv), OnLoadingChanged False]
            | None \<Rightarrow> []) @
           [OnError (convertError err) (execution (self w))])"
  by (simp add: onReadWindowRejected_def callPropsPushData_def Let_def split: option.splits)

lemma onChainRejected_self [simp]: "self (snd (onChainRejected err w)) = self w"
  by (simp add: onChainRejected_def)

lemma onChainRejected_fst [simp]: "fst (onChainRejected err w) = Resolved None"
  by (simp add: onChainRejected_def)

lemma onChainRejected_history:
  "history (snd (onChainRejected err w)) =
     history w @
     (if abandoned (self w) then [] else [OnError (convertError err) (execution (self w))])"
  by (simp add: onChainRejected_def)

lemma thenP_Resolved [simp]: "thenP f (Resolved v, w) = f v w"
  by (simp add: thenP_def)

lemma thenP_Rejected [simp]: "thenP f (Rejected err, w) = (Rejected err, w)"
  by (simp add: thenP_def)

lemma catchP_Resolved [simp]: "catchP g (Resolved v, w) = (Resolved v, w)"
  by (simp add: catchP_def)

lemma catchP_Rejected [simp]: "catchP g (Rejected err, w) = g err w"
  by (simp add: catchP_def)

lemma onExecuteFulfilled_read_ok:
  "readWindowOutcome sc = Resolved dv \<Longrightarrow>
   onExecuteFulfilled cpp sc result w =
     onReadWindowFulfilled result dv
       (ownerAt ReadWindowPending sc
          (emit (ReadWindow result (0, 0) (pageSize (props (self w)), cpp)) w))"
  by (simp add: onExecuteFulfilled_def Let_def onReadWindowFulfilled_def)

lemma onExecuteFulfilled_read_failed:
  "readWindowOutcome sc = Rejected err \<Longrightarrow>
   onExecuteFulfilled cpp sc result w =
     onReadWindowRejected result err
       (ownerAt ReadWindowPending sc
          (emit (ReadWindow result (0, 0) (pageSize (props (self w)), cpp)) w))"
  by (simp add: onExecuteFulfilled_def Let_def)

subsection \<open>The three courses of a settlement\<close>

lemma started_execution [simp]: "execution (self (started e p sc)) = e"
  by (simp add: started_def newTableFacadeInitializer_def)

lemma started_props [simp]: "props (self (started e p sc)) = p"
  by (simp add: started_def newTableFacadeInitializer_def)

lemma started_abandoned [simp]:
  "abandoned (self (started e p sc)) =
     (abandonAt sc BeforeInitialize \<or> abandonAt sc ExecutePending)"
  by (simp add: started_def newTableFacadeInitializer_def)

lemma started_history:
  "history (started e p sc) =
     (if abandonAt sc BeforeInitialize then [Abandoned] else []) @
     [OnLoadingChanged True, Execute e] @
     (if abandonAt sc ExecutePending \<and> \<not> abandonAt sc BeforeInitialize then [Abandoned] else [])"
  by (simp add: started_def newTableFacadeInitializer_def)

lemma settlement_started:
  "settlement cpp e p sc =
     (let r = thenP (onExecuteFulfilled cpp sc) (executeOutcome sc, started e p sc)
      in catchP onChainRejected (fst r, ownerAt OuterCatchPending sc (snd r)))"
  by (simp add: settlement_def initialize_def started_def Let_def newTableFacadeInitializer_def)

lemma settlement_execute_failed:
  "executeOutcome sc = Rejected err \<Longrightarrow>
   settlement cpp e p sc = onChainRejected err (ownerAt OuterCatchPending sc (started e p sc))"
  by (simp add: settlement_started Let_def)

lemma settlement_read_ok:
  "executeOutcome sc = Resolved result \<Longrightarrow> readWindowOutcome sc = Resolved dv \<Longrightarrow>
   settlement cpp e p sc =
     (let r = onReadWindowFulfilled result dv
                (ownerAt ReadWindowPending sc
                   (emit (ReadWindow result (0, 0) (pageSize p, cpp)) (started e p sc)))
      in (fst r, ownerAt OuterCatchPending sc (snd r)))"
  by (simp add: settlement_started Let_def onExecuteFulfilled_read_ok onReadWindowFulfilled_fst)

lemma settlement_read_failed:
  "executeOutcome sc = Resolved result \<Longrightarrow> readWindowOutcome sc = Rejected err \<Longrightarrow>
   settlement cpp e p sc =
     (let r = onReadWindowRejected result err
                (ownerAt ReadWindowPending sc
                   (emit (ReadWindow result (0, 0) (pageSize p, cpp)) (started e p sc)))
      in catchP onChainRejected (fst r, ownerAt OuterCatchPending sc (snd r)))"
  by (simp add: settlement_started Let_def onExecuteFulfilled_read_failed)

text \<open>The history of each course, with the marks.\<close>

lemma history_execute_failed:
  "executeOutcome sc = Rejected err \<Longrightarrow>
   history (snd (settlement cpp e p sc)) =
     history (started e p sc) @
     (if abandonAt sc OuterCatchPending \<and> \<not> abandonAt sc BeforeInitialize \<and>
         \<not> abandonAt sc ExecutePending
      then [Abandoned] else []) @
     (if abandonAt sc BeforeInitialize \<or> abandonAt sc ExecutePending \<or>
         abandonAt sc OuterCatchPending
      then [] else [OnError (convertError err) e])"
  by (simp add: settlement_execute_failed onChainRejected_history)

lemma history_read_ok:
  "executeOutcome sc = Resolved result \<Longrightarrow> readWindowOutcome sc = Resolved dv \<Longrightarrow>
   history (snd (settlement cpp e p sc)) =
     history (started e p sc) @
     [ReadWindow result (0, 0) (pageSize p, cpp)] @
     (if abandonAt sc BeforeInitialize \<or> abandonAt sc ExecutePending then []
      else if abandonAt sc ReadWindowPending then [Abandoned]
      else [OnLoadingChanged False,
            OnExportReady (createExportFunction (createTableFacade p result dv) (exportTitle p)),
            PushData (Some dv) (tableGetAvailableDrillTargets (createTableFacade p result dv))] @
           (if abandonAt sc OuterCatchPending then [Abandoned] else []))"
  by (simp add: settlement_read_ok Let_def onReadWindowFulfilled_history)

lemma history_read_failed:
  "executeOutcome sc = Resolved result \<Longrightarrow> readWindowOutcome sc = Rejected err \<Longrightarrow>
   history (snd (settlement cpp e p sc)) =
     history (started e p sc) @
     [ReadWindow result (0, 0) (pageSize p, cpp)] @
     (if abandonAt sc BeforeInitialize \<or> abandonAt sc ExecutePending then []
      else if abandonAt sc ReadWindowPending then [Abandoned]
      else if isUnexpectedResponseError err \<and> \<not> pushDataGiven p
      then (if abandonAt sc OuterCatchPending then [Abandoned]
            else [OnError (convertError (TypeError ''this.props.pushData is not a function'')) e])
      else (if isUnexpectedResponseError err
            then [PropsPushData None (getAvailableDrillTargetsFromExecutionResult result)] else []) @
           (case (if isNoDataError err then dataViewOf err else None) of
              Some dv \<Rightarrow> [PushData None (getAvailableDrillTargets dv), OnLoadingChanged False]
            | None \<Rightarrow> []) @
           [OnError (convertError err) e] @
           (if abandonAt sc OuterCatchPending then [Abandoned] else []))"
  by (simp add: settlement_read_failed Let_def onReadWindowRejected_history onReadWindowRejected_fst
        onChainRejected_history split: option.splits)

text \<open>The value the promise resolves with, and the flag at that moment.\<close>

lemma fst_settlement:
  "fst (settlement cpp e p sc) =
     (case executeOutcome sc of
        Rejected _ \<Rightarrow> Resolved None
      | Resolved result \<Rightarrow>
          (case readWindowOutcome sc of
             Rejected _ \<Rightarrow> Resolved None
           | Resolved dv \<Rightarrow>
               if abandonAt sc BeforeInitialize \<or> abandonAt sc ExecutePending \<or>
                  abandonAt sc ReadWindowPending
               then Resolved None
               else Resolved (Some (createTableFacade p result dv))))"
  by (cases "executeOutcome sc"; cases "readWindowOutcome sc")
     (simp_all add: settlement_execute_failed settlement_read_ok settlement_read_failed Let_def
        onReadWindowFulfilled_fst onReadWindowRejected_fst)

lemma abandoned_settlement:
  "abandoned (self (snd (settlement cpp e p sc))) =
     (abandonAt sc BeforeInitialize \<or> abandonAt sc ExecutePending \<or>
      abandonAt sc OuterCatchPending \<or>
      (case executeOutcome sc of
         Resolved _ \<Rightarrow> abandonAt sc ReadWindowPending
       | Rejected _ \<Rightarrow> False))"
  by (cases "executeOutcome sc"; cases "readWindowOutcome sc")
     (auto simp add: settlement_execute_failed settlement_read_ok settlement_read_failed Let_def
        onReadWindowRejected_fst)

subsection \<open>From the settlement to the whole life\<close>

lemma run_fst: "fst (run cpp e p sc) = fst (settlement cpp e p sc)"
  by (simp add: run_def Let_def)

lemma run_history:
  "history (snd (run cpp e p sc)) =
     history (snd (settlement cpp e p sc)) @
     (if abandonAt sc AfterSettled \<and> \<not> abandoned (self (snd (settlement cpp e p sc)))
      then [Abandoned] else [])"
  by (simp add: run_def Let_def)

lemma run_abandoned:
  "abandoned (self (snd (run cpp e p sc))) =
     (abandoned (self (snd (settlement cpp e p sc))) \<or> abandonAt sc AfterSettled)"
  by (simp add: run_def Let_def)

lemma calls_Nil [simp]: "calls [] = []"
  by (simp add: calls_def)

lemma calls_Cons [simp]: "calls (x # xs) = (if x = Abandoned then calls xs else x # calls xs)"
  by (simp add: calls_def)

lemma calls_append [simp]: "calls (xs @ ys) = calls xs @ calls ys"
  by (simp add: calls_def)

lemma calls_run:
  "calls (history (snd (run cpp e p sc))) = calls (history (snd (settlement cpp e p sc)))"
  by (simp add: run_history)

lemma backendCalls_calls: "backendCalls h = backendCalls (calls h)"
  by (induction h) (auto simp: backendCalls_def)

lemma readWindow_calls: "filter isReadWindow h = filter isReadWindow (calls h)"
  by (induction h) auto

lemma afterAbandon_mark: "afterAbandon (h @ [Abandoned]) = afterAbandon h @ (if Abandoned \<in> set h then [Abandoned] else [])"
  by (induction h) auto

lemma firedWhileAbandoned_mark: "firedWhileAbandoned (h @ [Abandoned]) = firedWhileAbandoned h"
  by (simp add: firedWhileAbandoned_def afterAbandon_mark configCalls_def propsCalls_def)

lemma flagTransitions_append [simp]:
  "flagTransitions (xs @ ys) = flagTransitions xs + flagTransitions ys"
  by (simp add: flagTransitions_def)

lemma flagTransitions_Cons [simp]:
  "flagTransitions (x # xs) = (if x = Abandoned then 1 else 0) + flagTransitions xs"
  by (simp add: flagTransitions_def)

lemma flagTransitions_Nil [simp]: "flagTransitions [] = 0"
  by (simp add: flagTransitions_def)

text \<open>The calls of each course, without the marks.\<close>

lemma calls_execute_failed:
  "executeOutcome sc = Rejected err \<Longrightarrow>
   calls (history (snd (run cpp e p sc))) =
     [OnLoadingChanged True, Execute e] @
     (if abandonAt sc BeforeInitialize \<or> abandonAt sc ExecutePending \<or>
         abandonAt sc OuterCatchPending
      then [] else [OnError (convertError err) e])"
  by (simp add: calls_run history_execute_failed started_history)

lemma calls_read_ok:
  "executeOutcome sc = Resolved result \<Longrightarrow> readWindowOutcome sc = Resolved dv \<Longrightarrow>
   calls (history (snd (run cpp e p sc))) =
     [OnLoadingChanged True, Execute e, ReadWindow result (0, 0) (pageSize p, cpp)] @
     (if abandonAt sc BeforeInitialize \<or> abandonAt sc ExecutePending \<or>
         abandonAt sc ReadWindowPending
      then []
      else [OnLoadingChanged False,
            OnExportReady (createExportFunction (createTableFacade p result dv) (exportTitle p)),
            PushData (Some dv) (tableGetAvailableDrillTargets (createTableFacade p result dv))])"
  by (simp add: calls_run history_read_ok started_history)

lemma calls_read_failed:
  "executeOutcome sc = Resolved result \<Longrightarrow> readWindowOutcome sc = Rejected err \<Longrightarrow>
   calls (history (snd (run cpp e p sc))) =
     [OnLoadingChanged True, Execute e, ReadWindow result (0, 0) (pageSize p, cpp)] @
     (if abandonAt sc BeforeInitialize \<or> abandonAt sc ExecutePending \<or>
         abandonAt sc ReadWindowPending
      then []
      else if isUnexpectedResponseError err \<and> \<not> pushDataGiven p
      then (if abandonAt sc OuterCatchPending then []
            else [OnError (convertError (TypeError ''this.props.pushData is not a function'')) e])
      else (if isUnexpectedResponseError err
            then [PropsPushData None (getAvailableDrillTargetsFromExecutionResult result)] else []) @
           (case (if isNoDataError err then dataViewOf err else None) of
              Some dv \<Rightarrow> [PushData None (getAvailableDrillTargets dv), OnLoadingChanged False]
            | None \<Rightarrow> []) @
           [OnError (convertError err) e])"
  by (simp add: calls_run history_read_failed started_history split: option.splits)

lemma backendCalls_run:
  "backendCalls (history (snd (run cpp e p sc))) =
     (case executeOutcome sc of
        Resolved result \<Rightarrow> [Execute e, ReadWindow result (0, 0) (pageSize p, cpp)]
      | Rejected _ \<Rightarrow> [Execute e])"
proof (cases "executeOutcome sc")
  case (Rejected err)
  then show ?thesis
    by (subst backendCalls_calls) (simp add: calls_execute_failed backendCalls_def)
next
  case ex: (Resolved result)
  show ?thesis
  proof (cases "readWindowOutcome sc")
    case (Resolved dv)
    show ?thesis
      by (subst backendCalls_calls) (simp add: calls_read_ok [OF ex Resolved] backendCalls_def ex)
  next
    case (Rejected err)
    show ?thesis
      by (subst backendCalls_calls)
         (simp add: calls_read_failed [OF ex Rejected] backendCalls_def ex split: option.splits)
  qed
qed

subsection \<open>An owner whose callbacks never abandon\<close>

text \<open>
  With callbacks that never call \<^verbatim>\<open>abandon\<close>, the second set of definitions is the first:
  the handlers, \<^verbatim>\<open>initialize\<close> and the whole life agree.
\<close>

lemma callback_noReentry: "callback noReentry ev w = emit ev w"
  by (simp add: callback_def noReentry_def Let_def)

lemma onReadWindowFulfilledR_noReentry:
  "onReadWindowFulfilledR noReentry result dv w = onReadWindowFulfilled result dv w"
  by (simp add: onReadWindowFulfilledR_def onReadWindowFulfilled_def Let_def callback_noReentry)

lemma onReadWindowRejectedR_noReentry:
  "onReadWindowRejectedR noReentry result err w = onReadWindowRejected result err w"
  by (simp add: onReadWindowRejectedR_def onReadWindowRejected_def callPropsPushDataR_def
        callPropsPushData_def Let_def callback_noReentry split: option.splits)

lemma onChainRejectedR_noReentry: "onChainRejectedR noReentry err w = onChainRejected err w"
  by (simp add: onChainRejectedR_def onChainRejected_def callback_noReentry)

lemma onExecuteFulfilledR_noReentry:
  "onExecuteFulfilledR noReentry cpp sc result w = onExecuteFulfilled cpp sc result w"
proof -
  have a: "onReadWindowRejectedR noReentry result = onReadWindowRejected result"
    by (intro ext) (rule onReadWindowRejectedR_noReentry)
  have b: "onReadWindowFulfilledR noReentry result = onReadWindowFulfilled result"
    by (intro ext) (rule onReadWindowFulfilledR_noReentry)
  show ?thesis
    by (simp only: onExecuteFulfilledR_def onExecuteFulfilled_def a b)
qed

lemma initializeR_noReentry: "initializeR noReentry cpp sc w = initialize cpp sc w"
proof -
  have a: "onExecuteFulfilledR noReentry cpp sc = onExecuteFulfilled cpp sc"
    by (intro ext) (rule onExecuteFulfilledR_noReentry)
  have b: "onChainRejectedR noReentry = onChainRejected"
    by (intro ext) (rule onChainRejectedR_noReentry)
  show ?thesis
    by (simp only: initializeR_def initialize_def a b callback_noReentry)
qed

lemma runR_noReentry: "runR noReentry cpp e p sc = run cpp e p sc"
  by (simp only: runR_def run_def settlement_def initializeR_noReentry)

section \<open>The claims\<close>

text \<open>
  In the statements below \<open>cpp\<close> is \<^verbatim>\<open>COLS_PER_PAGE\<close>, \<open>e\<close> the execution handle and \<open>p\<close> the
  props the instance was constructed with, and \<open>sc\<close> the scenario.
\<close>

subsection \<open>One terminal outcome, and the promise resolves\<close>

text \<open>
  Claim C1. However the two backend calls settle and in whichever gaps the owner calls
  \<^verbatim>\<open>abandon\<close>, the promise returned by \<^verbatim>\<open>initialize\<close> is fulfilled, never rejected, and
  exactly one of the three terminal outcomes holds at its settlement: a facade, no facade
  after one error report, or no facade after abandonment. The owner's gap after the
  settlement does not change the value.
\<close>

theorem initialize_one_outcome:
  "(\<exists>v. fst (settlement cpp e p sc) = Resolved v) \<and>
   fst (run cpp e p sc) = fst (settlement cpp e p sc) \<and>
   ((resolvedWithFacade (settlement cpp e p sc) \<and>
     \<not> resolvedAfterError (settlement cpp e p sc) \<and>
     \<not> resolvedAfterAbandon (settlement cpp e p sc)) \<or>
    (resolvedAfterError (settlement cpp e p sc) \<and>
     \<not> resolvedWithFacade (settlement cpp e p sc) \<and>
     \<not> resolvedAfterAbandon (settlement cpp e p sc)) \<or>
    (resolvedAfterAbandon (settlement cpp e p sc) \<and>
     \<not> resolvedWithFacade (settlement cpp e p sc) \<and>
     \<not> resolvedAfterError (settlement cpp e p sc)))"
proof (intro conjI)
  show "\<exists>v. fst (settlement cpp e p sc) = Resolved v"
    by (simp add: fst_settlement split: settled.splits)
  show "fst (run cpp e p sc) = fst (settlement cpp e p sc)"
    by (rule run_fst)
  show "(resolvedWithFacade (settlement cpp e p sc) \<and>
     \<not> resolvedAfterError (settlement cpp e p sc) \<and>
     \<not> resolvedAfterAbandon (settlement cpp e p sc)) \<or>
    (resolvedAfterError (settlement cpp e p sc) \<and>
     \<not> resolvedWithFacade (settlement cpp e p sc) \<and>
     \<not> resolvedAfterAbandon (settlement cpp e p sc)) \<or>
    (resolvedAfterAbandon (settlement cpp e p sc) \<and>
     \<not> resolvedWithFacade (settlement cpp e p sc) \<and>
     \<not> resolvedAfterError (settlement cpp e p sc))"
  proof (cases "executeOutcome sc")
    case (Rejected err)
    then show ?thesis
      by (simp add: resolvedWithFacade_def resolvedAfterError_def resolvedAfterAbandon_def
            fst_settlement abandoned_settlement history_execute_failed started_history)
  next
    case ex: (Resolved result)
    show ?thesis
    proof (cases "readWindowOutcome sc")
      case (Resolved dv)
      show ?thesis
        by (simp add: resolvedWithFacade_def resolvedAfterError_def resolvedAfterAbandon_def
              fst_settlement abandoned_settlement history_read_ok [OF ex Resolved]
              started_history ex Resolved)
    next
      case (Rejected err)
      show ?thesis
        by (simp add: resolvedWithFacade_def resolvedAfterError_def resolvedAfterAbandon_def
              fst_settlement abandoned_settlement history_read_failed [OF ex Rejected]
              started_history ex Rejected split: option.splits)
    qed
  qed
qed

theorem initialize_one_outcome_witness:
  "fst (run 1000 7 \<lparr>pageSize = Some 100, exportTitle = None, pushDataGiven = True\<rparr>
          \<lparr>executeOutcome = Resolved 11, readWindowOutcome = Rejected (OtherError ''timeout''),
           abandonAt = onlyAt ReadWindowPending\<rparr>) = Resolved None \<and>
   resolvedAfterAbandon
     (settlement 1000 7 \<lparr>pageSize = Some 100, exportTitle = None, pushDataGiven = True\<rparr>
        \<lparr>executeOutcome = Resolved 11, readWindowOutcome = Rejected (OtherError ''timeout''),
         abandonAt = onlyAt ReadWindowPending\<rparr>)"
proof -
  let ?p = "\<lparr>pageSize = Some 100, exportTitle = None, pushDataGiven = True\<rparr>"
  let ?sc = "\<lparr>executeOutcome = Resolved 11, readWindowOutcome = Rejected (OtherError ''timeout''),
              abandonAt = onlyAt ReadWindowPending\<rparr>"
  have v: "fst (settlement 1000 7 ?p ?sc) = Resolved None"
    by (simp add: fst_settlement)
  have f: "\<not> resolvedWithFacade (settlement 1000 7 ?p ?sc)"
    by (simp add: resolvedWithFacade_def v)
  have n: "\<not> resolvedAfterError (settlement 1000 7 ?p ?sc)"
    by (simp add: resolvedAfterError_def history_read_failed [of ?sc 11 "OtherError ''timeout''"]
          started_history onlyAt_def)
  from initialize_one_outcome [of 1000 7 ?p ?sc] f n v show ?thesis
    by simp
qed

subsection \<open>The success path\<close>

text \<open>
  Claim C2. Whenever \<^verbatim>\<open>execute\<close> is fulfilled, the backend calls are \<^verbatim>\<open>execute\<close> and then one
  \<^verbatim>\<open>readWindow\<close> on the returned result with offset \<open>(0, 0)\<close> and size
  \<open>(pageSize, COLS_PER_PAGE)\<close>. If that read is fulfilled too and the flag is not set by
  then, the calls are, in this order: \<^verbatim>\<open>onLoadingChanged(true)\<close> before \<^verbatim>\<open>execute\<close> is even
  called, \<^verbatim>\<open>onLoadingChanged(false)\<close>, \<^verbatim>\<open>onExportReady\<close> once with the export function of the
  facade and the export title, \<^verbatim>\<open>pushData\<close> once with the data view and the facade's drill
  targets; and the promise resolves with the facade made of that result and data view.
\<close>

theorem successful_initialization:
  "executeOutcome sc = Resolved result \<Longrightarrow>
   backendCalls (history (snd (run cpp e p sc))) =
     [Execute e, ReadWindow result (0, 0) (pageSize p, cpp)] \<and>
   (readWindowOutcome sc = Resolved dataView \<and> \<not> abandonAt sc BeforeInitialize \<and>
    \<not> abandonAt sc ExecutePending \<and> \<not> abandonAt sc ReadWindowPending \<longrightarrow>
      calls (history (snd (run cpp e p sc))) =
        [OnLoadingChanged True,
         Execute e,
         ReadWindow result (0, 0) (pageSize p, cpp),
         OnLoadingChanged False,
         OnExportReady (createExportFunction (createTableFacade p result dataView) (exportTitle p)),
         PushData (Some dataView)
           (tableGetAvailableDrillTargets (createTableFacade p result dataView))] \<and>
      fst (run cpp e p sc) = Resolved (Some (createTableFacade p result dataView)))"
proof (intro conjI impI)
  assume ex: "executeOutcome sc = Resolved result"
  show "backendCalls (history (snd (run cpp e p sc))) =
          [Execute e, ReadWindow result (0, 0) (pageSize p, cpp)]"
  proof (cases "readWindowOutcome sc")
    case (Resolved dv)
    show ?thesis
      by (subst backendCalls_calls) (simp add: calls_read_ok [OF ex Resolved] backendCalls_def)
  next
    case (Rejected err)
    show ?thesis
      by (subst backendCalls_calls)
         (simp add: calls_read_failed [OF ex Rejected] backendCalls_def split: option.splits)
  qed
next
  assume ex: "executeOutcome sc = Resolved result"
    and rest: "readWindowOutcome sc = Resolved dataView \<and> \<not> abandonAt sc BeforeInitialize \<and>
      \<not> abandonAt sc ExecutePending \<and> \<not> abandonAt sc ReadWindowPending"
  from rest have rd: "readWindowOutcome sc = Resolved dataView"
    by simp
  from rest show "calls (history (snd (run cpp e p sc))) =
        [OnLoadingChanged True,
         Execute e,
         ReadWindow result (0, 0) (pageSize p, cpp),
         OnLoadingChanged False,
         OnExportReady (createExportFunction (createTableFacade p result dataView) (exportTitle p)),
         PushData (Some dataView)
           (tableGetAvailableDrillTargets (createTableFacade p result dataView))]"
    by (simp add: calls_read_ok [OF ex rd])
  from rest show "fst (run cpp e p sc) = Resolved (Some (createTableFacade p result dataView))"
    by (simp add: run_fst fst_settlement ex)
qed

theorem successful_initialization_witness:
  "calls (history (snd (run 1000 7 \<lparr>pageSize = Some 100, exportTitle = Some ''Revenue'', pushDataGiven = True\<rparr>
      \<lparr>executeOutcome = Resolved 11, readWindowOutcome = Resolved 22, abandonAt = onlyAt AfterSettled\<rparr>))) =
     [OnLoadingChanged True,
      Execute 7,
      ReadWindow 11 (0, 0) (Some 100, 1000),
      OnLoadingChanged False,
      OnExportReady
        (ExportFunction
           (TableFacade 11 22 \<lparr>pageSize = Some 100, exportTitle = Some ''Revenue'', pushDataGiven = True\<rparr>)
           (Some ''Revenue'')),
      PushData (Some 22)
        (TableDrillTargets
           (TableFacade 11 22 \<lparr>pageSize = Some 100, exportTitle = Some ''Revenue'', pushDataGiven = True\<rparr>))] \<and>
   fst (run 1000 7 \<lparr>pageSize = Some 100, exportTitle = Some ''Revenue'', pushDataGiven = True\<rparr>
      \<lparr>executeOutcome = Resolved 11, readWindowOutcome = Resolved 22, abandonAt = onlyAt AfterSettled\<rparr>) =
     Resolved (Some (TableFacade 11 22 \<lparr>pageSize = Some 100, exportTitle = Some ''Revenue'', pushDataGiven = True\<rparr>))"
  using successful_initialization
    [of "\<lparr>executeOutcome = Resolved 11, readWindowOutcome = Resolved 22, abandonAt = onlyAt AfterSettled\<rparr>"
        11 1000 7 "\<lparr>pageSize = Some 100, exportTitle = Some ''Revenue'', pushDataGiven = True\<rparr>" 22]
  by (simp add: onlyAt_def createTableFacade_def createExportFunction_def
        tableGetAvailableDrillTargets_def)

subsection \<open>The error paths\<close>

text \<open>
  Claim C7. If \<^verbatim>\<open>execute\<close> is fulfilled, \<^verbatim>\<open>readWindow\<close> is rejected with a "no data" error that
  carries a data view, and the flag is not set by then, then after the read the class
  calls \<^verbatim>\<open>pushData\<close> once, with the drill targets of that attached data view and no data
  view, then \<^verbatim>\<open>onLoadingChanged(false)\<close>, then \<^verbatim>\<open>onError\<close> once with the converted error and
  the execution handle, and the promise resolves with \<^verbatim>\<open>undefined\<close>.
\<close>

theorem no_data_with_data_view:
  "executeOutcome sc = Resolved result \<Longrightarrow>
   readWindowOutcome sc = Rejected err \<Longrightarrow>
   isNoDataError err \<Longrightarrow>
   dataViewOf err = Some dv \<Longrightarrow>
   \<not> abandonAt sc BeforeInitialize \<Longrightarrow>
   \<not> abandonAt sc ExecutePending \<Longrightarrow>
   \<not> abandonAt sc ReadWindowPending \<Longrightarrow>
   calls (history (snd (run cpp e p sc))) =
     [OnLoadingChanged True,
      Execute e,
      ReadWindow result (0, 0) (pageSize p, cpp),
      PushData None (getAvailableDrillTargets dv),
      OnLoadingChanged False,
      OnError (convertError err) e] \<and>
   fst (run cpp e p sc) = Resolved None"
proof -
  assume ex: "executeOutcome sc = Resolved result"
    and rd: "readWindowOutcome sc = Rejected err"
    and kind: "isNoDataError err" "dataViewOf err = Some dv"
    and flag: "\<not> abandonAt sc BeforeInitialize" "\<not> abandonAt sc ExecutePending"
      "\<not> abandonAt sc ReadWindowPending"
  from kind have other: "\<not> isUnexpectedResponseError err"
    by (cases err) simp_all
  have "calls (history (snd (run cpp e p sc))) =
     [OnLoadingChanged True,
      Execute e,
      ReadWindow result (0, 0) (pageSize p, cpp),
      PushData None (getAvailableDrillTargets dv),
      OnLoadingChanged False,
      OnError (convertError err) e]"
    using kind flag other by (simp add: calls_read_failed [OF ex rd])
  moreover have "fst (run cpp e p sc) = Resolved None"
    by (simp add: run_fst fst_settlement ex rd)
  ultimately show ?thesis
    by simp
qed

theorem no_data_with_data_view_witness:
  "isNoDataError (NoDataError (Some 33)) \<and>
   dataViewOf (NoDataError (Some 33)) = Some 33 \<and>
   calls (history (snd (run 1000 7 \<lparr>pageSize = Some 100, exportTitle = None, pushDataGiven = False\<rparr>
      \<lparr>executeOutcome = Resolved 11, readWindowOutcome = Rejected (NoDataError (Some 33)),
       abandonAt = never\<rparr>))) =
     [OnLoadingChanged True,
      Execute 7,
      ReadWindow 11 (0, 0) (Some 100, 1000),
      PushData None (DataViewDrillTargets 33),
      OnLoadingChanged False,
      OnError (ConvertedError (NoDataError (Some 33))) 7] \<and>
   fst (run 1000 7 \<lparr>pageSize = Some 100, exportTitle = None, pushDataGiven = False\<rparr>
      \<lparr>executeOutcome = Resolved 11, readWindowOutcome = Rejected (NoDataError (Some 33)),
       abandonAt = never\<rparr>) = Resolved None"
  using no_data_with_data_view
    [of "\<lparr>executeOutcome = Resolved 11, readWindowOutcome = Rejected (NoDataError (Some 33)),
          abandonAt = never\<rparr>"
        11 "NoDataError (Some 33)" 33 1000 7
        "\<lparr>pageSize = Some 100, exportTitle = None, pushDataGiven = False\<rparr>"]
  by (simp add: never_def getAvailableDrillTargets_def convertError_def)

text \<open>
  Claim C8. If \<^verbatim>\<open>execute\<close> is rejected, \<^verbatim>\<open>readWindow\<close> is never called and the promise
  resolves with \<^verbatim>\<open>undefined\<close>. When the flag is not set as the outer \<^verbatim>\<open>catch\<close> runs, the only
  call after the rejection is one \<^verbatim>\<open>onError\<close> with the converted error and the execution
  handle; when the flag is set, there is no call after the rejection at all.
\<close>

theorem execute_rejected:
  "executeOutcome sc = Rejected err \<Longrightarrow>
   calls (history (snd (run cpp e p sc))) =
     [OnLoadingChanged True, Execute e] @
     (if abandonAt sc BeforeInitialize \<or> abandonAt sc ExecutePending \<or>
         abandonAt sc OuterCatchPending
      then []
      else [OnError (convertError err) e]) \<and>
   filter isReadWindow (history (snd (run cpp e p sc))) = [] \<and>
   fst (run cpp e p sc) = Resolved None"
proof -
  assume ex: "executeOutcome sc = Rejected err"
  have c: "calls (history (snd (run cpp e p sc))) =
     [OnLoadingChanged True, Execute e] @
     (if abandonAt sc BeforeInitialize \<or> abandonAt sc ExecutePending \<or>
         abandonAt sc OuterCatchPending
      then []
      else [OnError (convertError err) e])"
    by (rule calls_execute_failed [OF ex])
  have "filter isReadWindow (history (snd (run cpp e p sc))) =
          filter isReadWindow (calls (history (snd (run cpp e p sc))))"
    by (rule readWindow_calls)
  also have "\<dots> = []"
    by (simp add: c)
  finally have r: "filter isReadWindow (history (snd (run cpp e p sc))) = []" .
  have "fst (run cpp e p sc) = Resolved None"
    by (simp add: run_fst fst_settlement ex)
  with c r show ?thesis
    by simp
qed

theorem execute_rejected_witness:
  "calls (history (snd (run 1000 7 \<lparr>pageSize = None, exportTitle = None, pushDataGiven = True\<rparr>
      \<lparr>executeOutcome = Rejected (OtherError ''forbidden''), readWindowOutcome = Resolved 22,
       abandonAt = never\<rparr>))) =
     [OnLoadingChanged True, Execute 7, OnError (ConvertedError (OtherError ''forbidden'')) 7] \<and>
   calls (history (snd (run 1000 7 \<lparr>pageSize = None, exportTitle = None, pushDataGiven = True\<rparr>
      \<lparr>executeOutcome = Rejected (OtherError ''forbidden''), readWindowOutcome = Resolved 22,
       abandonAt = onlyAt ExecutePending\<rparr>))) =
     [OnLoadingChanged True, Execute 7]"
  using
    execute_rejected
      [of "\<lparr>executeOutcome = Rejected (OtherError ''forbidden''), readWindowOutcome = Resolved 22,
            abandonAt = never\<rparr>"
          "OtherError ''forbidden''" 1000 7
          "\<lparr>pageSize = None, exportTitle = None, pushDataGiven = True\<rparr>"]
    execute_rejected
      [of "\<lparr>executeOutcome = Rejected (OtherError ''forbidden''), readWindowOutcome = Resolved 22,
            abandonAt = onlyAt ExecutePending\<rparr>"
          "OtherError ''forbidden''" 1000 7
          "\<lparr>pageSize = None, exportTitle = None, pushDataGiven = True\<rparr>"]
  by (simp add: never_def onlyAt_def convertError_def)

subsection \<open>What the caller can tell from the value\<close>

text \<open>
  Claim C10. The promise of \<^verbatim>\<open>initialize\<close> resolves with a value of type
  \<^verbatim>\<open>TableFacade | undefined\<close>. It is the facade only when both backend calls are fulfilled
  and the flag is not set when the read is handled; in every other case, a failed step
  and an abandoned initialization alike, it is the one value \<^verbatim>\<open>undefined\<close>, so the value
  alone does not tell the two apart.
\<close>

theorem resolved_value:
  "fst (run cpp e p sc) =
     (case executeOutcome sc of
        Rejected _ \<Rightarrow> Resolved None
      | Resolved result \<Rightarrow>
          (case readWindowOutcome sc of
             Rejected _ \<Rightarrow> Resolved None
           | Resolved dataView \<Rightarrow>
               if abandonAt sc BeforeInitialize \<or> abandonAt sc ExecutePending \<or>
                  abandonAt sc ReadWindowPending
               then Resolved None
               else Resolved (Some (createTableFacade p result dataView))))"
proof (cases "executeOutcome sc")
  case (Rejected err)
  then show ?thesis
    by (simp add: run_fst settlement_execute_failed)
next
  case ex: (Resolved result)
  show ?thesis
  proof (cases "readWindowOutcome sc")
    case (Resolved dataView)
    show ?thesis
      by (simp add: run_fst settlement_read_ok [OF ex Resolved] Let_def onReadWindowFulfilled_fst
            ex Resolved)
  next
    case (Rejected err)
    show ?thesis
      by (simp add: run_fst settlement_read_failed [OF ex Rejected] Let_def
            onReadWindowRejected_fst ex Rejected)
  qed
qed

theorem resolved_value_witness:
  "fst (run 1000 7 \<lparr>pageSize = Some 100, exportTitle = None, pushDataGiven = True\<rparr>
      \<lparr>executeOutcome = Resolved 11, readWindowOutcome = Resolved 22,
       abandonAt = onlyAt ExecutePending\<rparr>) =
   fst (run 1000 7 \<lparr>pageSize = Some 100, exportTitle = None, pushDataGiven = True\<rparr>
      \<lparr>executeOutcome = Rejected (OtherError ''forbidden''), readWindowOutcome = Resolved 22,
       abandonAt = never\<rparr>)"
  using
    resolved_value
      [of 1000 7 "\<lparr>pageSize = Some 100, exportTitle = None, pushDataGiven = True\<rparr>"
          "\<lparr>executeOutcome = Resolved 11, readWindowOutcome = Resolved 22,
            abandonAt = onlyAt ExecutePending\<rparr>"]
    resolved_value
      [of 1000 7 "\<lparr>pageSize = Some 100, exportTitle = None, pushDataGiven = True\<rparr>"
          "\<lparr>executeOutcome = Rejected (OtherError ''forbidden''), readWindowOutcome = Resolved 22,
            abandonAt = never\<rparr>"]
  by (simp add: onlyAt_def)

subsection \<open>Abandoning\<close>

text \<open>
  Claim C5. \<^verbatim>\<open>abandon\<close> on an instance whose flag is false sets the flag and touches nothing
  else; a second call on that instance fails with the invariant's error. In a whole life
  of an instance, however often the owner calls \<^verbatim>\<open>abandon\<close>, the flag goes from false to
  true at most once, and it is true at the end exactly when it did so once.
\<close>

theorem abandon_once:
  "\<not> abandoned ini \<Longrightarrow>
   abandon ini = Inr (ini\<lparr>abandoned := True\<rparr>) \<and>
   abandon (ini\<lparr>abandoned := True\<rparr>) = Inl InvariantError \<and>
   flagTransitions (history (snd (run cpp e p sc))) =
     (if abandoned (self (snd (run cpp e p sc))) then 1 else 0)"
proof (intro conjI)
  assume "\<not> abandoned ini"
  then show "abandon ini = Inr (ini\<lparr>abandoned := True\<rparr>)"
    by (simp add: abandon_def)
  show "abandon (ini\<lparr>abandoned := True\<rparr>) = Inl InvariantError"
    by (simp add: abandon_def)
  show "flagTransitions (history (snd (run cpp e p sc))) =
     (if abandoned (self (snd (run cpp e p sc))) then 1 else 0)"
  proof (cases "executeOutcome sc")
    case (Rejected err)
    then show ?thesis
      by (simp add: run_history run_abandoned abandoned_settlement history_execute_failed
            started_history)
  next
    case ex: (Resolved result)
    show ?thesis
    proof (cases "readWindowOutcome sc")
      case (Resolved dv)
      show ?thesis
        by (simp add: run_history run_abandoned abandoned_settlement
              history_read_ok [OF ex Resolved] started_history ex)
    next
      case (Rejected err)
      show ?thesis
        by (simp add: run_history run_abandoned abandoned_settlement
              history_read_failed [OF ex Rejected] started_history ex split: option.splits)
    qed
  qed
qed

theorem abandon_once_witness:
  "abandon (newTableFacadeInitializer 7 \<lparr>pageSize = None, exportTitle = None, pushDataGiven = True\<rparr>) =
     Inr \<lparr>execution = 7, props = \<lparr>pageSize = None, exportTitle = None, pushDataGiven = True\<rparr>,
          abandoned = True\<rparr> \<and>
   abandon \<lparr>execution = 7, props = \<lparr>pageSize = None, exportTitle = None, pushDataGiven = True\<rparr>,
           abandoned = True\<rparr> = Inl InvariantError"
  using abandon_once
    [of "newTableFacadeInitializer 7 \<lparr>pageSize = None, exportTitle = None, pushDataGiven = True\<rparr>"]
  by (simp add: newTableFacadeInitializer_def)

text \<open>
  Claim C4 on the code. Both backend calls are fulfilled, and the owner's
  \<^verbatim>\<open>onLoadingChanged\<close>, called with \<^verbatim>\<open>{isLoading: false}\<close>, calls \<^verbatim>\<open>abandon\<close>, as an owner does
  who disposes of the table on that event. The handler of the fulfilled read has checked
  the flag once, at line 54, before its three callbacks; so with the flag set it goes on to
  call \<^verbatim>\<open>onExportReady\<close> and \<^verbatim>\<open>pushData\<close>, and the promise resolves with the facade, where the
  comment of \<^verbatim>\<open>abandon\<close> promises that no events will be emitted and that the
  initialization ends with \<^verbatim>\<open>undefined\<close>.
\<close>

theorem abandon_inside_callback:
  "history (snd (runR (onlyInside (OnLoadingChanged False)) 1000 7
      \<lparr>pageSize = Some 100, exportTitle = Some ''Revenue'', pushDataGiven = True\<rparr>
      \<lparr>executeOutcome = Resolved 11, readWindowOutcome = Resolved 22, abandonAt = never\<rparr>)) =
     [OnLoadingChanged True,
      Execute 7,
      ReadWindow 11 (0, 0) (Some 100, 1000),
      OnLoadingChanged False,
      Abandoned,
      OnExportReady
        (createExportFunction
           (createTableFacade \<lparr>pageSize = Some 100, exportTitle = Some ''Revenue'', pushDataGiven = True\<rparr> 11 22)
           (Some ''Revenue'')),
      PushData (Some 22)
        (tableGetAvailableDrillTargets
           (createTableFacade \<lparr>pageSize = Some 100, exportTitle = Some ''Revenue'', pushDataGiven = True\<rparr> 11 22))] \<and>
   firedWhileAbandoned
     (history (snd (runR (onlyInside (OnLoadingChanged False)) 1000 7
        \<lparr>pageSize = Some 100, exportTitle = Some ''Revenue'', pushDataGiven = True\<rparr>
        \<lparr>executeOutcome = Resolved 11, readWindowOutcome = Resolved 22, abandonAt = never\<rparr>))) =
     [OnExportReady
        (createExportFunction
           (createTableFacade \<lparr>pageSize = Some 100, exportTitle = Some ''Revenue'', pushDataGiven = True\<rparr> 11 22)
           (Some ''Revenue'')),
      PushData (Some 22)
        (tableGetAvailableDrillTargets
           (createTableFacade \<lparr>pageSize = Some 100, exportTitle = Some ''Revenue'', pushDataGiven = True\<rparr> 11 22))] \<and>
   fst (runR (onlyInside (OnLoadingChanged False)) 1000 7
      \<lparr>pageSize = Some 100, exportTitle = Some ''Revenue'', pushDataGiven = True\<rparr>
      \<lparr>executeOutcome = Resolved 11, readWindowOutcome = Resolved 22, abandonAt = never\<rparr>) =
     Resolved (Some (createTableFacade \<lparr>pageSize = Some 100, exportTitle = Some ''Revenue'', pushDataGiven = True\<rparr> 11 22))"
proof -
  let ?r = "runR (onlyInside (OnLoadingChanged False)) 1000 7
      \<lparr>pageSize = Some 100, exportTitle = Some ''Revenue'', pushDataGiven = True\<rparr>
      \<lparr>executeOutcome = Resolved 11, readWindowOutcome = Resolved 22, abandonAt = never\<rparr>"
  have h: "history (snd ?r) =
     [OnLoadingChanged True,
      Execute 7,
      ReadWindow 11 (0, 0) (Some 100, 1000),
      OnLoadingChanged False,
      Abandoned,
      OnExportReady
        (createExportFunction
           (createTableFacade \<lparr>pageSize = Some 100, exportTitle = Some ''Revenue'', pushDataGiven = True\<rparr> 11 22)
           (Some ''Revenue'')),
      PushData (Some 22)
        (tableGetAvailableDrillTargets
           (createTableFacade \<lparr>pageSize = Some 100, exportTitle = Some ''Revenue'', pushDataGiven = True\<rparr> 11 22))]"
    by (simp add: runR_def initializeR_def onExecuteFulfilledR_def onReadWindowFulfilledR_def
          callback_def ownerAt_def abandon_def emit_def never_def onlyInside_def
          newTableFacadeInitializer_def Let_def)
  have v: "fst ?r = Resolved (Some (createTableFacade \<lparr>pageSize = Some 100, exportTitle = Some ''Revenue'', pushDataGiven = True\<rparr> 11 22))"
    by (simp add: runR_def initializeR_def onExecuteFulfilledR_def onReadWindowFulfilledR_def
          callback_def ownerAt_def abandon_def emit_def never_def onlyInside_def
          newTableFacadeInitializer_def Let_def)
  have f: "firedWhileAbandoned (history (snd ?r)) =
     [OnExportReady
        (createExportFunction
           (createTableFacade \<lparr>pageSize = Some 100, exportTitle = Some ''Revenue'', pushDataGiven = True\<rparr> 11 22)
           (Some ''Revenue'')),
      PushData (Some 22)
        (tableGetAvailableDrillTargets
           (createTableFacade \<lparr>pageSize = Some 100, exportTitle = Some ''Revenue'', pushDataGiven = True\<rparr> 11 22))]"
    by (simp only: h) (simp add: firedWhileAbandoned_def configCalls_def propsCalls_def)
  from h f v show ?thesis
    by simp
qed

text \<open>
  What the checks of the flag do achieve. When the owner calls \<^verbatim>\<open>abandon\<close> only between
  handlers, and not before \<^verbatim>\<open>initialize\<close>, whose first statement (line 46) is no handler and
  checks nothing, then no callback, of \<^verbatim>\<open>config\<close> or of \<^verbatim>\<open>props\<close>, is called once the flag is
  set, however the two backend calls settle.
\<close>

lemma silent_between_handlers:
  "\<not> abandonAt sc BeforeInitialize \<Longrightarrow>
   firedWhileAbandoned (history (snd (run cpp e p sc))) = []"
proof -
  assume n0: "\<not> abandonAt sc BeforeInitialize"
  have s: "firedWhileAbandoned (history (snd (settlement cpp e p sc))) = []"
  proof (cases "executeOutcome sc")
    case (Rejected err)
    with n0 show ?thesis
      by (simp add: history_execute_failed started_history firedWhileAbandoned_def
            configCalls_def propsCalls_def)
  next
    case ex: (Resolved result)
    show ?thesis
    proof (cases "readWindowOutcome sc")
      case (Resolved dv)
      from n0 show ?thesis
        by (simp add: history_read_ok [OF ex Resolved] started_history firedWhileAbandoned_def
              configCalls_def propsCalls_def)
    next
      case (Rejected err)
      from n0 show ?thesis
        by (simp add: history_read_failed [OF ex Rejected] started_history firedWhileAbandoned_def
              configCalls_def propsCalls_def split: option.splits)
    qed
  qed
  show ?thesis
    by (simp add: run_history firedWhileAbandoned_mark s)
qed

text \<open>
  Claim C3. If the owner calls \<^verbatim>\<open>abandon\<close> while \<^verbatim>\<open>execute\<close> is pending, the promise resolves
  with \<^verbatim>\<open>undefined\<close> and the only callback of the whole life is the \<^verbatim>\<open>onLoadingChanged(true)\<close>
  that \<^verbatim>\<open>initialize\<close> made before. Abandoning cancels nothing: the calls to the backend are
  those of the same life without any \<^verbatim>\<open>abandon\<close>, that is, \<^verbatim>\<open>execute\<close>, and on its result,
  once it is fulfilled, \<^verbatim>\<open>readWindow\<close>; both settle as they would have. If that call of
  \<^verbatim>\<open>abandon\<close> is the one that sets the flag, the whole history is as stated, with nothing
  but the \<^verbatim>\<open>readWindow\<close> call behind the mark.
\<close>

theorem abandoned_while_execute_pending:
  "abandonAt sc ExecutePending \<Longrightarrow>
   fst (run cpp e p sc) = Resolved None \<and>
   calls (history (snd (run cpp e p sc))) =
     [OnLoadingChanged True, Execute e] @
     (case executeOutcome sc of
        Resolved result \<Rightarrow> [ReadWindow result (0, 0) (pageSize p, cpp)]
      | Rejected _ \<Rightarrow> []) \<and>
   (\<not> abandonAt sc BeforeInitialize \<longrightarrow>
      history (snd (run cpp e p sc)) =
        [OnLoadingChanged True, Execute e, Abandoned] @
        (case executeOutcome sc of
           Resolved result \<Rightarrow> [ReadWindow result (0, 0) (pageSize p, cpp)]
         | Rejected _ \<Rightarrow> [])) \<and>
   backendCalls (history (snd (run cpp e p sc))) =
     backendCalls (history (snd (run cpp e p (sc\<lparr>abandonAt := never\<rparr>))))"
proof -
  assume a: "abandonAt sc ExecutePending"
  have v: "fst (run cpp e p sc) = Resolved None"
    using a by (simp add: run_fst fst_settlement split: settled.splits)
  have h: "history (snd (run cpp e p sc)) =
      (if abandonAt sc BeforeInitialize then [Abandoned] else []) @
      [OnLoadingChanged True, Execute e] @
      (if abandonAt sc BeforeInitialize then [] else [Abandoned]) @
      (case executeOutcome sc of
         Resolved result \<Rightarrow> [ReadWindow result (0, 0) (pageSize p, cpp)]
       | Rejected _ \<Rightarrow> [])"
  proof (cases "executeOutcome sc")
    case (Rejected err)
    with a show ?thesis
      by (simp add: run_history abandoned_settlement history_execute_failed started_history)
  next
    case ex: (Resolved result)
    show ?thesis
    proof (cases "readWindowOutcome sc")
      case (Resolved dv)
      from a show ?thesis
        by (simp add: run_history abandoned_settlement history_read_ok [OF ex Resolved]
              started_history ex)
    next
      case (Rejected err)
      from a show ?thesis
        by (simp add: run_history abandoned_settlement history_read_failed [OF ex Rejected]
              started_history ex)
    qed
  qed
  have c: "calls (history (snd (run cpp e p sc))) =
     [OnLoadingChanged True, Execute e] @
     (case executeOutcome sc of
        Resolved result \<Rightarrow> [ReadWindow result (0, 0) (pageSize p, cpp)]
      | Rejected _ \<Rightarrow> [])"
    by (simp add: h split: settled.splits)
  have n: "backendCalls (history (snd (run cpp e p sc))) =
     backendCalls (history (snd (run cpp e p (sc\<lparr>abandonAt := never\<rparr>))))"
    by (simp add: backendCalls_run)
  from v c h n show ?thesis
    by simp
qed

theorem abandoned_while_execute_pending_witness:
  "history (snd (run 1000 7 \<lparr>pageSize = Some 100, exportTitle = None, pushDataGiven = True\<rparr>
      \<lparr>executeOutcome = Resolved 11, readWindowOutcome = Resolved 22,
       abandonAt = onlyAt ExecutePending\<rparr>)) =
     [OnLoadingChanged True, Execute 7, Abandoned, ReadWindow 11 (0, 0) (Some 100, 1000)] \<and>
   fst (run 1000 7 \<lparr>pageSize = Some 100, exportTitle = None, pushDataGiven = True\<rparr>
      \<lparr>executeOutcome = Resolved 11, readWindowOutcome = Resolved 22,
       abandonAt = onlyAt ExecutePending\<rparr>) = Resolved None"
  using abandoned_while_execute_pending
    [of "\<lparr>executeOutcome = Resolved 11, readWindowOutcome = Resolved 22,
          abandonAt = onlyAt ExecutePending\<rparr>"
        1000 7 "\<lparr>pageSize = Some 100, exportTitle = None, pushDataGiven = True\<rparr>"]
  by (simp add: onlyAt_def)

subsection \<open>The calls to the backend\<close>

text \<open>
  Claim C9, as amended. In every life, \<^verbatim>\<open>execute\<close> is called exactly once on the execution
  handle. When it is fulfilled, \<^verbatim>\<open>readWindow\<close> is called exactly once, on its result; when
  it is rejected, \<^verbatim>\<open>readWindow\<close> is not called. Nothing is called a second time, however
  the calls settle and whenever the owner abandons.
\<close>

theorem backend_calls:
  "backendCalls (history (snd (run cpp e p sc))) =
     (case executeOutcome sc of
        Resolved result \<Rightarrow> [Execute e, ReadWindow result (0, 0) (pageSize p, cpp)]
      | Rejected _ \<Rightarrow> [Execute e])"
proof (cases "executeOutcome sc")
  case (Rejected err)
  then show ?thesis
    by (subst backendCalls_calls) (simp add: calls_execute_failed backendCalls_def)
next
  case ex: (Resolved result)
  show ?thesis
  proof (cases "readWindowOutcome sc")
    case (Resolved dv)
    show ?thesis
      by (subst backendCalls_calls) (simp add: calls_read_ok [OF ex Resolved] backendCalls_def ex)
  next
    case (Rejected err)
    show ?thesis
      by (subst backendCalls_calls)
         (simp add: calls_read_failed [OF ex Rejected] backendCalls_def ex split: option.splits)
  qed
qed

theorem backend_calls_witness:
  "backendCalls
     (history (snd (run 1000 7 \<lparr>pageSize = Some 100, exportTitle = None, pushDataGiven = True\<rparr>
        \<lparr>executeOutcome = Resolved 11, readWindowOutcome = Rejected UnexpectedResponseError,
         abandonAt = onlyAt ReadWindowPending\<rparr>))) =
     [Execute 7, ReadWindow 11 (0, 0) (Some 100, 1000)]"
  using backend_calls
    [of 1000 7 "\<lparr>pageSize = Some 100, exportTitle = None, pushDataGiven = True\<rparr>"
        "\<lparr>executeOutcome = Resolved 11, readWindowOutcome = Rejected UnexpectedResponseError,
          abandonAt = onlyAt ReadWindowPending\<rparr>"]
  by simp

text \<open>
  The claim as it stands has \<^verbatim>\<open>readWindow\<close> called exactly once for every outcome of the two
  steps. With \<^verbatim>\<open>execute\<close> rejected it is called zero times.
\<close>

theorem backend_calls_counterexample:
  "length
     (filter isReadWindow
        (history (snd (run 1000 7 \<lparr>pageSize = Some 100, exportTitle = None, pushDataGiven = True\<rparr>
           \<lparr>executeOutcome = Rejected (OtherError ''forbidden''), readWindowOutcome = Resolved 22,
            abandonAt = never\<rparr>)))) \<noteq> 1"
proof -
  let ?sc = "\<lparr>executeOutcome = Rejected (OtherError ''forbidden''), readWindowOutcome = Resolved 22,
              abandonAt = never\<rparr>"
  have ex: "executeOutcome ?sc = Rejected (OtherError ''forbidden'')"
    by simp
  show ?thesis
    by (simp add: run_history abandoned_settlement history_execute_failed [OF ex] started_history
          never_def)
qed

subsection \<open>The unexpected response\<close>

text \<open>
  Claim C6 on the code. \<^verbatim>\<open>execute\<close> is fulfilled, \<^verbatim>\<open>readWindow\<close> is rejected with an
  "unexpected response" error, the owner never abandons, and \<^verbatim>\<open>props.pushData\<close> is not given.
  The inner \<^verbatim>\<open>catch\<close> calls \<^verbatim>\<open>this.props.pushData\<close>, not \<^verbatim>\<open>config.pushData\<close> as its two sibling
  paths do; the call raises a TypeError, which the outer \<^verbatim>\<open>catch\<close> reports. So no
  \<^verbatim>\<open>pushData\<close> is called at all, and \<^verbatim>\<open>onError\<close> receives the converted TypeError instead of
  the converted error of the backend. The promise still resolves with \<^verbatim>\<open>undefined\<close>.
\<close>

theorem unexpected_response_without_props_pushData:
  "history (snd (run 1000 7 \<lparr>pageSize = Some 100, exportTitle = None, pushDataGiven = False\<rparr>
      \<lparr>executeOutcome = Resolved 11, readWindowOutcome = Rejected UnexpectedResponseError,
       abandonAt = never\<rparr>)) =
     [OnLoadingChanged True,
      Execute 7,
      ReadWindow 11 (0, 0) (Some 100, 1000),
      OnError (convertError (TypeError ''this.props.pushData is not a function'')) 7] \<and>
   fst (run 1000 7 \<lparr>pageSize = Some 100, exportTitle = None, pushDataGiven = False\<rparr>
      \<lparr>executeOutcome = Resolved 11, readWindowOutcome = Rejected UnexpectedResponseError,
       abandonAt = never\<rparr>) = Resolved None"
proof -
  let ?sc = "\<lparr>executeOutcome = Resolved 11, readWindowOutcome = Rejected UnexpectedResponseError,
              abandonAt = never\<rparr>"
  have ex: "executeOutcome ?sc = Resolved 11"
    and rd: "readWindowOutcome ?sc = Rejected UnexpectedResponseError"
    by simp_all
  show ?thesis
    by (simp add: run_fst fst_settlement run_history abandoned_settlement
          history_read_failed [OF ex rd] started_history never_def)
qed

text \<open>
  The same path in general. Where \<^verbatim>\<open>props.pushData\<close> is given, it is the one that receives
  the drill targets of the execution result, and \<^verbatim>\<open>onError\<close> follows with the converted
  error of the backend; \<^verbatim>\<open>config.pushData\<close> is called in neither case.
\<close>

lemma unexpected_response_calls:
  "executeOutcome sc = Resolved result \<Longrightarrow>
   readWindowOutcome sc = Rejected err \<Longrightarrow>
   isUnexpectedResponseError err \<Longrightarrow>
   \<not> abandonAt sc BeforeInitialize \<Longrightarrow>
   \<not> abandonAt sc ExecutePending \<Longrightarrow>
   \<not> abandonAt sc ReadWindowPending \<Longrightarrow>
   calls (history (snd (run cpp e p sc))) =
     [OnLoadingChanged True, Execute e, ReadWindow result (0, 0) (pageSize p, cpp)] @
     (if pushDataGiven p
      then [PropsPushData None (getAvailableDrillTargetsFromExecutionResult result),
            OnError (convertError err) e]
      else if abandonAt sc OuterCatchPending then []
      else [OnError (convertError (TypeError ''this.props.pushData is not a function'')) e])"
proof -
  assume ex: "executeOutcome sc = Resolved result"
    and rd: "readWindowOutcome sc = Rejected err"
    and kind: "isUnexpectedResponseError err"
    and flag: "\<not> abandonAt sc BeforeInitialize" "\<not> abandonAt sc ExecutePending"
      "\<not> abandonAt sc ReadWindowPending"
  from kind have other: "\<not> isNoDataError err"
    by (cases err) simp_all
  from kind flag other show ?thesis
    by (simp add: calls_read_failed [OF ex rd])
qed

end
